theory Spec2Isabelle
  imports Main "HOL-Library.Product_Lexorder"
begin

section \<open>Data model\<close>

text \<open>
  A \<open>Guid\<close> is an opaque identifier with a total order (\<open>Guid.CompareTo\<close>, which LINQ's
  \<open>ThenBy\<close> uses); it is modelled as a natural number, \<open>Guid.Empty\<close> as 0. A
  \<open>DateTime\<close> is a number of ticks. The entity classes \<open>Ticket\<close>, \<open>User\<close>,
  \<open>TicketMessage\<close> and the request and response classes are declared outside the
  service files; their fields are taken from how the services read and write them, and
  a nullable field that an object initializer leaves out is \<open>None\<close>.
\<close>

type_synonym guid = nat
type_synonym time = nat

definition Guid_Empty :: guid where
  "Guid_Empty = 0"

datatype TicketStatus = New | InProgress | WaitingForClient | Resolved | Closed

datatype TicketPriority = Low | Medium | High | Critical

datatype UserRole = Client | Technician | Admin

datatype error = StatusChangeForbiddenException | DbUpdateException | InvalidOperationException

record Ticket =
  Ticket_Id :: guid
  Title :: string
  Description :: string
  CategoryId :: int
  SubcategoryId :: "int option"
  Priority :: TicketPriority
  Status :: TicketStatus
  CreatedByUserId :: guid
  AssignedToUserId :: "guid option"
  TechnicianId :: "guid option"
  DueDate :: "time option"
  CreatedAt :: time
  UpdatedAt :: "time option"

record TechnicianProfile =
  Technician_Id :: guid
  Technician_FullName :: string
  Technician_Email :: string
  Technician_Phone :: "string option"
  Technician_Department :: "string option"
  IsActive :: bool
  Technician_CreatedAt :: time
  UserId :: "guid option"

record User =
  User_Id :: guid
  User_FullName :: string
  User_Email :: string
  User_Role :: UserRole

record TicketMessage =
  Message_Id :: guid
  Message_TicketId :: guid
  AuthorUserId :: guid
  Message :: string
  Message_CreatedAt :: time
  Message_Status :: "TicketStatus option"

text \<open>
  The \<open>AppDbContext\<close>: one list per table, in row order, so that \<open>FirstOrDefaultAsync\<close>
  is \<open>find\<close>. \<open>Notifications\<close> collects the calls of
  \<open>INotificationService.CreateNotificationAsync\<close> (user, text).
\<close>

record AppDbContext =
  Tickets :: "Ticket list"
  Technicians :: "TechnicianProfile list"
  Users :: "User list"
  TicketMessages :: "TicketMessage list"
  Notifications :: "(guid \<times> string) list"

record TicketCreateRequest =
  Create_Title :: string
  Create_Description :: string
  Create_CategoryId :: int
  Create_SubcategoryId :: "int option"
  Create_Priority :: TicketPriority

record TicketUpdateRequest =
  Update_Description :: "string option"
  Update_Priority :: "TicketPriority option"
  Update_Status :: "TicketStatus option"
  Update_AssignedToUserId :: "guid option"
  Update_DueDate :: "time option"

text \<open>
  \<open>TicketResponse\<close> keeps the ticket's own columns and the assigned technician's display
  name; the other joined display strings of \<open>MapToResponse\<close> (category, creator, e-mail,
  phone) are built the same way from navigation properties and are left out.
\<close>

record TicketResponse =
  Response_Id :: guid
  Response_Title :: string
  Response_Description :: string
  Response_CategoryId :: int
  Response_SubcategoryId :: "int option"
  Response_Priority :: TicketPriority
  Response_Status :: TicketStatus
  Response_CreatedByUserId :: guid
  Response_AssignedToUserId :: "guid option"
  Response_AssignedToName :: "string option"
  Response_CreatedAt :: time
  Response_UpdatedAt :: "time option"
  Response_DueDate :: "time option"

record TicketMessageDto =
  Dto_Id :: guid
  Dto_AuthorUserId :: guid
  Dto_AuthorName :: string
  Dto_AuthorEmail :: string
  Dto_Message :: string
  Dto_CreatedAt :: time
  Dto_Status :: "TicketStatus option"

section \<open>Persistence helpers\<close>

definition find_ticket :: "guid \<Rightarrow> Ticket list \<Rightarrow> Ticket option" where
  "find_ticket i ts = find (\<lambda>t. Ticket_Id t = i) ts"

definition find_technician :: "guid \<Rightarrow> TechnicianProfile list \<Rightarrow> TechnicianProfile option" where
  "find_technician i ts = find (\<lambda>t. Technician_Id t = i) ts"

definition find_user :: "guid \<Rightarrow> User list \<Rightarrow> User option" where
  "find_user i us = find (\<lambda>u. User_Id u = i) us"

text \<open>
  \<open>SaveChangesAsync\<close> for a tracked ticket that was read with \<open>FirstOrDefaultAsync\<close>:
  the first row with that key is replaced.
\<close>

fun save_ticket :: "Ticket \<Rightarrow> Ticket list \<Rightarrow> Ticket list" where
  "save_ticket t [] = []"
| "save_ticket t (x # xs) =
     (if Ticket_Id x = Ticket_Id t then t # xs else x # save_ticket t xs)"

section \<open>TicketService\<close>

definition MapToResponse :: "AppDbContext \<Rightarrow> Ticket \<Rightarrow> TicketResponse" where
  "MapToResponse db ticket =
     (let isAssigned = (AssignedToUserId ticket \<noteq> None);
          technician = (case TechnicianId ticket of None \<Rightarrow> None
                        | Some i \<Rightarrow> find_technician i (Technicians db));
          assignedToUser = (case AssignedToUserId ticket of None \<Rightarrow> None
                        | Some i \<Rightarrow> find_user i (Users db))
      in \<lparr> Response_Id = Ticket_Id ticket,
           Response_Title = Title ticket,
           Response_Description = Description ticket,
           Response_CategoryId = CategoryId ticket,
           Response_SubcategoryId = SubcategoryId ticket,
           Response_Priority = Priority ticket,
           Response_Status = Status ticket,
           Response_CreatedByUserId = CreatedByUserId ticket,
           Response_AssignedToUserId = AssignedToUserId ticket,
           Response_AssignedToName =
             (if isAssigned
              then (case technician of Some tech \<Rightarrow> Some (Technician_FullName tech)
                    | None \<Rightarrow> map_option User_FullName assignedToUser)
              else None),
           Response_CreatedAt = CreatedAt ticket,
           Response_UpdatedAt = UpdatedAt ticket,
           Response_DueDate = DueDate ticket \<rparr>)"

definition GetTicketAsync :: "guid \<Rightarrow> guid \<Rightarrow> UserRole \<Rightarrow> AppDbContext \<Rightarrow> TicketResponse option" where
  "GetTicketAsync i userId role db =
     (case find_ticket i (Tickets db) of
        None \<Rightarrow> None
      | Some ticket \<Rightarrow>
          if role = Client \<and> CreatedByUserId ticket \<noteq> userId then None
          else if role = Technician \<and> TechnicianId ticket \<noteq> Some userId
                  \<and> AssignedToUserId ticket \<noteq> Some userId then None
          else Some (MapToResponse db ticket))"

text \<open>
  \<open>CreateTicketAsync\<close>: \<open>newId\<close> is the value of \<open>Guid.NewGuid()\<close> and \<open>now\<close> of
  \<open>DateTime.UtcNow\<close>. Inserting a row whose key is already in the table makes
  \<open>SaveChangesAsync\<close> throw and nothing is stored.
\<close>

definition CreateTicketAsync ::
  "guid \<Rightarrow> TicketCreateRequest \<Rightarrow> guid \<Rightarrow> time \<Rightarrow> AppDbContext
     \<Rightarrow> (error + TicketResponse option) \<times> AppDbContext" where
  "CreateTicketAsync userId request newId now db =
     (let ticket = \<lparr> Ticket_Id = newId,
                      Title = Create_Title request,
                      Description = Create_Description request,
                      CategoryId = Create_CategoryId request,
                      SubcategoryId = Create_SubcategoryId request,
                      Priority = Create_Priority request,
                      Status = New,
                      CreatedByUserId = userId,
                      AssignedToUserId = None,
                      TechnicianId = None,
                      DueDate = None,
                      CreatedAt = now,
                      UpdatedAt = None \<rparr>
      in if newId \<in> set (map Ticket_Id (Tickets db)) then (Inl DbUpdateException, db)
         else
           (let db' = db\<lparr>Tickets := Tickets db @ [ticket]\<rparr>
            in case find_ticket newId (Tickets db') of
                 None \<Rightarrow> (Inl InvalidOperationException, db')
               | Some t \<Rightarrow> (Inr (Some (MapToResponse db' t)), db')))"

definition UpdateTicketAsync ::
  "guid \<Rightarrow> guid \<Rightarrow> UserRole \<Rightarrow> TicketUpdateRequest \<Rightarrow> time \<Rightarrow> AppDbContext
     \<Rightarrow> TicketResponse option \<times> AppDbContext" where
  "UpdateTicketAsync i userId role request now db =
     (case find_ticket i (Tickets db) of
        None \<Rightarrow> (None, db)
      | Some ticket \<Rightarrow>
          if role = Client \<and> CreatedByUserId ticket \<noteq> userId then (None, db)
          else if role = Technician \<and> TechnicianId ticket \<noteq> Some userId
                  \<and> AssignedToUserId ticket \<noteq> Some userId then (None, db)
          else
            (let t1 = (case Update_Description request of
                         Some d \<Rightarrow> if role \<noteq> Technician then ticket\<lparr>Description := d\<rparr> else ticket
                       | None \<Rightarrow> ticket);
                 t2 = (case Update_Priority request of
                         Some p \<Rightarrow> if role \<noteq> Technician then t1\<lparr>Priority := p\<rparr> else t1
                       | None \<Rightarrow> t1);
                 t3 = (case Update_Status request of
                         None \<Rightarrow> t2
                       | Some s \<Rightarrow>
                           if role = Client
                           then (if s = WaitingForClient \<or> s = Closed then t2\<lparr>Status := s\<rparr> else t2)
                           else if role = Technician then t2\<lparr>Status := s\<rparr>
                           else t2\<lparr>Status := s\<rparr>);
                 t4 = (if role = Admin
                       then (case Update_AssignedToUserId request of
                               Some u \<Rightarrow> t3\<lparr>AssignedToUserId := Some u\<rparr>
                             | None \<Rightarrow> t3)\<lparr>DueDate := Update_DueDate request\<rparr>
                       else t3);
                 t5 = t4\<lparr>UpdatedAt := Some now\<rparr>;
                 db' = db\<lparr>Tickets := save_ticket t5 (Tickets db)\<rparr>
             in (GetTicketAsync i userId role db', db')))"

definition AssignTicketAsync ::
  "guid \<Rightarrow> guid \<Rightarrow> time \<Rightarrow> AppDbContext \<Rightarrow> TicketResponse option \<times> AppDbContext" where
  "AssignTicketAsync i technicianId now db =
     (case find_ticket i (Tickets db) of
        None \<Rightarrow> (None, db)
      | Some ticket \<Rightarrow>
          (case find_technician technicianId (Technicians db) of
             None \<Rightarrow> (None, db)
           | Some technician \<Rightarrow>
               if \<not> IsActive technician then (None, db)
               else
                 (let t' = ticket\<lparr>TechnicianId := Some technicianId,
                                   AssignedToUserId := UserId technician,
                                   Status := InProgress,
                                   UpdatedAt := Some now\<rparr>;
                      db' = db\<lparr>Tickets := save_ticket t' (Tickets db)\<rparr>
                  in (GetTicketAsync i Guid_Empty Admin db', db'))))"

definition notification_text :: "string \<Rightarrow> string" where
  "notification_text title = ''New message on ticket '' @ [CHR 0x27] @ title @ [CHR 0x27]"

definition message_dto :: "AppDbContext \<Rightarrow> guid \<Rightarrow> (error + TicketMessageDto option)" where
  "message_dto db mid =
     (case find (\<lambda>m. Message_Id m = mid) (TicketMessages db) of
        None \<Rightarrow> Inl InvalidOperationException
      | Some m \<Rightarrow>
          (case find_user (AuthorUserId m) (Users db) of
             None \<Rightarrow> Inl InvalidOperationException
           | Some u \<Rightarrow>
               Inr (Some \<lparr> Dto_Id = Message_Id m,
                           Dto_AuthorUserId = AuthorUserId m,
                           Dto_AuthorName = User_FullName u,
                           Dto_AuthorEmail = User_Email u,
                           Dto_Message = Message m,
                           Dto_CreatedAt = Message_CreatedAt m,
                           Dto_Status = Message_Status m \<rparr>)))"

text \<open>
  \<open>AddMessageAsync\<close>: \<open>now\<close> and \<open>sentAt\<close> are the two readings of
  \<open>DateTime.UtcNow\<close> (the ticket's \<open>UpdatedAt\<close>, the message's \<open>CreatedAt\<close>) and
  \<open>newId\<close> the message's \<open>Guid.NewGuid()\<close>. The exception is thrown before
  \<open>SaveChangesAsync\<close>, so the returned store is the one the call started from.
\<close>

definition AddMessageAsync ::
  "guid \<Rightarrow> guid \<Rightarrow> string \<Rightarrow> TicketStatus option \<Rightarrow> guid \<Rightarrow> time \<Rightarrow> time
     \<Rightarrow> AppDbContext \<Rightarrow> (error + TicketMessageDto option) \<times> AppDbContext" where
  "AddMessageAsync ticketId authorId message status newId now sentAt db =
     (case find_ticket ticketId (Tickets db) of
        None \<Rightarrow> (Inr None, db)
      | Some ticket \<Rightarrow>
          (case find_user authorId (Users db) of
             None \<Rightarrow> (Inr None, db)
           | Some author \<Rightarrow>
               if User_Role author = Client \<and> CreatedByUserId ticket \<noteq> authorId
               then (Inr None, db)
               else if User_Role author = Technician \<and> TechnicianId ticket \<noteq> Some authorId
                       \<and> AssignedToUserId ticket \<noteq> Some authorId
               then (Inr None, db)
               else
                 (let step =
                        (case status of
                           None \<Rightarrow> Inr ticket
                         | Some newStatus \<Rightarrow>
                             (let isClosingStatus = (newStatus = Resolved \<or> newStatus = Closed);
                                  isReopening = (newStatus = InProgress \<and>
                                     (Status ticket = Resolved \<or> Status ticket = Closed))
                              in if User_Role author = Client
                                 then (if isClosingStatus then Inl StatusChangeForbiddenException
                                       else if isReopening \<or> newStatus = WaitingForClient
                                       then Inr (ticket\<lparr>Status := newStatus\<rparr>)
                                       else Inr ticket)
                                 else Inr (ticket\<lparr>Status := newStatus\<rparr>)))
                  in case step of
                       Inl e \<Rightarrow> (Inl e, db)
                     | Inr t1 \<Rightarrow>
                         (let t2 = t1\<lparr>UpdatedAt := Some now\<rparr>;
                              ticketMessage =
                                \<lparr> Message_Id = newId,
                                  Message_TicketId = ticketId,
                                  AuthorUserId = authorId,
                                  Message = message,
                                  Message_CreatedAt = sentAt,
                                  Message_Status =
                                    Some (case status of Some s \<Rightarrow> s | None \<Rightarrow> Status t2) \<rparr>
                          in if newId \<in> set (map Message_Id (TicketMessages db))
                             then (Inl DbUpdateException, db)
                             else
                               (let db1 = db\<lparr>Tickets := save_ticket t2 (Tickets db),
                                              TicketMessages := TicketMessages db @ [ticketMessage]\<rparr>;
                                    notifyUserId =
                                      (if AssignedToUserId t2 = Some authorId
                                       then CreatedByUserId t2
                                       else (case AssignedToUserId t2 of
                                               Some u \<Rightarrow> u
                                             | None \<Rightarrow> CreatedByUserId t2));
                                    db2 = db1\<lparr>Notifications := Notifications db1 @
                                              [(notifyUserId, notification_text (Title t2))]\<rparr>
                                in (message_dto db2 newId, db2))))))"

section \<open>SmartAssignmentService\<close>

definition eligibleTechnicians :: "TechnicianProfile list \<Rightarrow> TechnicianProfile list" where
  "eligibleTechnicians techs = filter (\<lambda>t. IsActive t \<and> UserId t \<noteq> None) techs"

definition loadCount :: "Ticket list \<Rightarrow> guid \<Rightarrow> nat" where
  "loadCount tickets techId =
     length (filter (\<lambda>t. TechnicianId t = Some techId \<and>
                          (Status t = New \<or> Status t = InProgress)) tickets)"

definition technicianLoads :: "Ticket list \<Rightarrow> TechnicianProfile list \<Rightarrow> (guid \<times> nat) list" where
  "technicianLoads tickets techs =
     map (\<lambda>tech. (Technician_Id tech, loadCount tickets (Technician_Id tech))) techs"

text \<open>
  \<open>OrderBy(LoadCount).ThenBy(TechnicianId).First()\<close>: a stable sort on the pair
  (load, id) in lexicographic order, then the first element; \<open>First\<close> throws on an
  empty sequence.
\<close>

definition selectedTechnician :: "(guid \<times> nat) list \<Rightarrow> error + (guid \<times> nat)" where
  "selectedTechnician loads =
     (case sort_key (\<lambda>(techId, load). (load, techId)) loads of
        [] \<Rightarrow> Inl InvalidOperationException
      | x # _ \<Rightarrow> Inr x)"

text \<open>
  \<open>AssignTechnicianToTicketAsync\<close> queries the technicians twice: once for the
  candidates and once, after the selection, for the selected row. \<open>reread\<close> is the
  technicians table as the second query sees it, so that a linkage lost between the
  two reads can be stated; the service run on its own sees the same table both times.
\<close>

definition AssignTechnicianToTicket_reread ::
  "TechnicianProfile list \<Rightarrow> guid \<Rightarrow> time \<Rightarrow> AppDbContext
     \<Rightarrow> (error + guid option) \<times> AppDbContext" where
  "AssignTechnicianToTicket_reread reread ticketId now db =
     (case find_ticket ticketId (Tickets db) of
        None \<Rightarrow> (Inr None, db)
      | Some ticket \<Rightarrow>
          if TechnicianId ticket \<noteq> None then (Inr None, db)
          else
            (let eligible = eligibleTechnicians (Technicians db)
             in if length eligible = 0 then (Inr None, db)
                else
                  (case selectedTechnician (technicianLoads (Tickets db) eligible) of
                     Inl e \<Rightarrow> (Inl e, db)
                   | Inr selected \<Rightarrow>
                       (case find_technician (fst selected) reread of
                          None \<Rightarrow> (Inr None, db)
                        | Some technician \<Rightarrow>
                            if UserId technician = None then (Inr None, db)
                            else
                              (let t' = ticket\<lparr>TechnicianId := Some (fst selected),
                                                AssignedToUserId := UserId technician,
                                                Status := InProgress,
                                                UpdatedAt := Some now\<rparr>
                               in (Inr (Some (fst selected)),
                                   db\<lparr>Tickets := save_ticket t' (Tickets db)\<rparr>))))))"

definition AssignTechnicianToTicketAsync ::
  "guid \<Rightarrow> time \<Rightarrow> AppDbContext \<Rightarrow> (error + guid option) \<times> AppDbContext" where
  "AssignTechnicianToTicketAsync ticketId now db =
     AssignTechnicianToTicket_reread (Technicians db) ticketId now db"

definition unassignedTickets :: "time option \<Rightarrow> time option \<Rightarrow> AppDbContext \<Rightarrow> Ticket list" where
  "unassignedTickets startDate endDate db =
     (let q0 = filter (\<lambda>t. TechnicianId t = None) (Tickets db);
          q1 = (case startDate of Some s \<Rightarrow> filter (\<lambda>t. s \<le> CreatedAt t) q0 | None \<Rightarrow> q0);
          q2 = (case endDate of Some e \<Rightarrow> filter (\<lambda>t. CreatedAt t \<le> e) q1 | None \<Rightarrow> q1)
      in q2)"

text \<open>
  The \<open>foreach\<close> of \<open>AssignUnassignedTicketsAsync\<close>; \<open>clock k\<close> is \<open>DateTime.UtcNow\<close>
  in the \<open>k\<close>-th iteration. An exception leaves the loop with the assignments made so far
  stored.
\<close>

fun assign_each ::
  "Ticket list \<Rightarrow> (nat \<Rightarrow> time) \<Rightarrow> nat \<Rightarrow> nat \<Rightarrow> AppDbContext \<Rightarrow> (error + nat) \<times> AppDbContext" where
  "assign_each [] clock k assignedCount db = (Inr assignedCount, db)"
| "assign_each (ticket # rest) clock k assignedCount db =
     (case AssignTechnicianToTicketAsync (Ticket_Id ticket) (clock k) db of
        (Inl e, db') \<Rightarrow> (Inl e, db')
      | (Inr assignedTechnicianId, db') \<Rightarrow>
          assign_each rest clock (Suc k)
            (if assignedTechnicianId \<noteq> None then assignedCount + 1 else assignedCount) db')"

definition AssignUnassignedTicketsAsync ::
  "time option \<Rightarrow> time option \<Rightarrow> (nat \<Rightarrow> time) \<Rightarrow> AppDbContext \<Rightarrow> (error + nat) \<times> AppDbContext" where
  "AssignUnassignedTicketsAsync startDate endDate clock db =
     assign_each (unassignedTickets startDate endDate db) clock 0 0 db"

section \<open>Predicates and sample data used by the theorems\<close>

text \<open>The pairing invariant of one ticket: both assignment references are set, or neither.\<close>

definition paired :: "Ticket \<Rightarrow> bool" where
  "paired t = ((TechnicianId t = None) = (AssignedToUserId t = None))"

text \<open>A ticket that already has a technician is the same ticket afterwards.\<close>

definition keeps_assigned :: "Ticket \<Rightarrow> Ticket \<Rightarrow> bool" where
  "keeps_assigned a b = (TechnicianId a \<noteq> None \<longrightarrow> b = a)"

text \<open>
  A small store: a client (1), an admin (3), three technician accounts (2, 4, 5); technician
  profiles A (10, two open tickets), B (11, none), C (12, inactive) and D (13, active but
  not linked to an account, as \<open>CreateTechnicianAsync\<close> leaves a new profile).
\<close>

definition sample_user :: "guid \<Rightarrow> string \<Rightarrow> UserRole \<Rightarrow> User" where
  "sample_user i name role =
     \<lparr>User_Id = i, User_FullName = name, User_Email = name @ ''@test.com'', User_Role = role\<rparr>"

definition sample_users :: "User list" where
  "sample_users =
     [sample_user 1 ''client'' Client,
      sample_user 2 ''tech.a'' Technician,
      sample_user 3 ''admin'' Admin,
      sample_user 4 ''tech.b'' Technician,
      sample_user 5 ''tech.c'' Technician]"

definition sample_technician :: "guid \<Rightarrow> string \<Rightarrow> bool \<Rightarrow> guid option \<Rightarrow> TechnicianProfile" where
  "sample_technician i name active link =
     \<lparr>Technician_Id = i, Technician_FullName = name, Technician_Email = name,
      Technician_Phone = None, Technician_Department = None, IsActive = active,
      Technician_CreatedAt = 0, UserId = link\<rparr>"

definition sample_technicians :: "TechnicianProfile list" where
  "sample_technicians =
     [sample_technician 10 ''A'' True (Some 2),
      sample_technician 11 ''B'' True (Some 4),
      sample_technician 12 ''C'' False (Some 5),
      sample_technician 13 ''D'' True None]"

definition sample_ticket ::
  "guid \<Rightarrow> TicketStatus \<Rightarrow> guid option \<Rightarrow> guid option \<Rightarrow> time option \<Rightarrow> Ticket" where
  "sample_ticket i s tech usr due =
     \<lparr>Ticket_Id = i, Title = ''Printer'', Description = ''Broken'', CategoryId = 1,
      SubcategoryId = None, Priority = Medium, Status = s, CreatedByUserId = 1,
      AssignedToUserId = usr, TechnicianId = tech, DueDate = due, CreatedAt = 5,
      UpdatedAt = None\<rparr>"

definition sample_db :: AppDbContext where
  "sample_db =
     \<lparr>Tickets = [sample_ticket 100 New (Some 10) (Some 2) (Some 99),
                 sample_ticket 101 InProgress (Some 10) (Some 2) None,
                 sample_ticket 102 New None None None,
                 sample_ticket 103 Closed (Some 11) (Some 4) None],
      Technicians = sample_technicians,
      Users = sample_users,
      TicketMessages = [],
      Notifications = []\<rparr>"

definition sample_patch :: "guid option \<Rightarrow> time option \<Rightarrow> TicketUpdateRequest" where
  "sample_patch usr due =
     \<lparr>Update_Description = None, Update_Priority = None, Update_Status = None,
      Update_AssignedToUserId = usr, Update_DueDate = due\<rparr>"

definition sample_create :: TicketCreateRequest where
  "sample_create =
     \<lparr>Create_Title = ''Mouse'', Create_Description = ''Lost'', Create_CategoryId = 1,
      Create_SubcategoryId = None, Create_Priority = Low\<rparr>"

definition sample_unlinked_db :: AppDbContext where
  "sample_unlinked_db = sample_db\<lparr>Technicians := [sample_technician 13 ''D'' True None]\<rparr>"

text \<open>The technicians table after the account linked to B was deleted (the key is set to null).\<close>

definition sample_reread :: "TechnicianProfile list" where
  "sample_reread =
     [sample_technician 10 ''A'' True (Some 2),
      sample_technician 11 ''B'' True None,
      sample_technician 12 ''C'' False (Some 5),
      sample_technician 13 ''D'' True None]"

section \<open>Auxiliary facts\<close>

lemma find_ticket_Some:
  "find_ticket i ts = Some t \<Longrightarrow> Ticket_Id t = i \<and> t \<in> set ts"
  unfolding find_ticket_def by (induction ts) (auto split: if_splits)

lemma find_ticket_save_same:
  "find_ticket i ts = Some t \<Longrightarrow> Ticket_Id t' = i \<Longrightarrow> find_ticket i (save_ticket t' ts) = Some t'"
  unfolding find_ticket_def by (induction ts) (auto split: if_splits)

lemma find_ticket_save_other:
  "Ticket_Id t' \<noteq> i \<Longrightarrow> find_ticket i (save_ticket t' ts) = find_ticket i ts"
  unfolding find_ticket_def by (induction ts) (auto split: if_splits)

lemma save_ticket_absent:
  "find_ticket (Ticket_Id t') ts = None \<Longrightarrow> save_ticket t' ts = ts"
  unfolding find_ticket_def by (induction ts) (auto split: if_splits)

lemma length_save_ticket [simp]: "length (save_ticket t' ts) = length ts"
  by (induction ts) auto

lemma map_save_ticket:
  "find_ticket (Ticket_Id t') ts = Some t \<Longrightarrow> f t' = f t \<Longrightarrow> map f (save_ticket t' ts) = map f ts"
  unfolding find_ticket_def by (induction ts) (auto split: if_splits)

lemma find_append_fresh:
  "k \<notin> set (map f xs) \<Longrightarrow> f m = k \<Longrightarrow> find (\<lambda>x. f x = k) (xs @ [m]) = Some m"
  by (induction xs) auto

lemma selectedTechnician_min:
  assumes "loads \<noteq> []"
  shows "\<exists>x. selectedTechnician loads = Inr x \<and> x \<in> set loads
             \<and> (\<forall>y \<in> set loads. (snd x, fst x) \<le> (snd y, fst y))"
proof -
  let ?f = "\<lambda>(techId :: guid, load :: nat). (load, techId)"
  let ?s = "sort_key ?f loads"
  have ne: "?s \<noteq> []" using assms by (metis length_sort length_0_conv)
  then obtain x r where s: "?s = x # r" by (cases ?s) auto
  have srt: "sorted (map ?f ?s)" by (rule sorted_sort_key)
  have st: "set ?s = set loads" by simp
  have xin: "x \<in> set loads" using s st by (metis list.set_intros(1))
  have le: "\<forall>y \<in> set loads. ?f x \<le> ?f y"
  proof
    fix y assume "y \<in> set loads"
    then have "y \<in> set (x # r)" using s st by simp
    then show "?f x \<le> ?f y" using srt s by auto
  qed
  have sel: "selectedTechnician loads = Inr x" by (simp add: selectedTechnician_def s)
  from le have "\<forall>y \<in> set loads. (snd x, fst x) \<le> (snd y, fst y)"
    by (auto simp: case_prod_beta)
  with sel xin show ?thesis by blast
qed

lemma technicianLoads_nonempty:
  "techs \<noteq> [] \<Longrightarrow> technicianLoads tickets techs \<noteq> []"
  by (simp add: technicianLoads_def)

lemma find_technician_distinct:
  "distinct (map Technician_Id ts) \<Longrightarrow> x \<in> set ts \<Longrightarrow>
     find_technician (Technician_Id x) ts = Some x"
  unfolding find_technician_def by (induction ts) (auto simp: image_iff)

lemma find_technician_Some:
  "find_technician i ts = Some t \<Longrightarrow> Technician_Id t = i \<and> t \<in> set ts"
  unfolding find_technician_def by (induction ts) (auto split: if_splits)

lemma assign_total:
  "\<exists>r db'. AssignTechnicianToTicket_reread reread ticketId now db = (Inr r, db')"
proof -
  have "selectedTechnician (technicianLoads (Tickets db) (eligibleTechnicians (Technicians db)))
          \<noteq> Inl e" if "eligibleTechnicians (Technicians db) \<noteq> []" for e
    using selectedTechnician_min[OF technicianLoads_nonempty[OF that, of "Tickets db"]] by auto
  then show ?thesis
    by (auto simp: AssignTechnicianToTicket_reread_def Let_def split: option.splits sum.splits)
qed

lemma save_ticket_list_all2:
  assumes "find_ticket (Ticket_Id t') ts = Some t" and "P t t'" and "\<And>x. P x x"
  shows "list_all2 P ts (save_ticket t' ts)"
  using assms unfolding find_ticket_def
  by (induction ts) (auto split: if_splits simp: list_all2_same)

lemma list_all2_keeps_refl: "list_all2 keeps_assigned ts ts"
  by (simp add: list_all2_same keeps_assigned_def)

lemma list_all2_keeps_trans:
  "list_all2 keeps_assigned xs ys \<Longrightarrow> list_all2 keeps_assigned ys zs \<Longrightarrow>
     list_all2 keeps_assigned xs zs"
  by (erule (1) list_all2_trans[rotated]) (auto simp: keeps_assigned_def)

lemma assign_keeps_assigned:
  "list_all2 keeps_assigned (Tickets db)
     (Tickets (snd (AssignTechnicianToTicket_reread reread ticketId now db)))"
proof (cases "find_ticket ticketId (Tickets db)")
  case None
  then show ?thesis by (simp add: AssignTechnicianToTicket_reread_def list_all2_keeps_refl)
next
  case (Some ticket)
  then have i: "Ticket_Id ticket = ticketId" using find_ticket_Some by blast
  show ?thesis
    using Some i
    by (auto simp: AssignTechnicianToTicket_reread_def Let_def list_all2_keeps_refl
                   keeps_assigned_def
             split: option.splits sum.splits intro!: save_ticket_list_all2)
qed

lemma assign_each_total:
  "\<exists>n db'. assign_each ts clock k c db = (Inr n, db') \<and> n \<le> c + length ts
            \<and> list_all2 keeps_assigned (Tickets db) (Tickets db')"
proof (induction ts arbitrary: k c db)
  case Nil
  then show ?case by (simp add: list_all2_keeps_refl)
next
  case (Cons t ts)
  obtain r db1 where a: "AssignTechnicianToTicketAsync (Ticket_Id t) (clock k) db = (Inr r, db1)"
    unfolding AssignTechnicianToTicketAsync_def using assign_total by blast
  have k1: "list_all2 keeps_assigned (Tickets db) (Tickets db1)"
    using assign_keeps_assigned[of db "Technicians db" "Ticket_Id t" "clock k"] a
    by (simp add: AssignTechnicianToTicketAsync_def)
  let ?c = "if r \<noteq> None then c + 1 else c"
  obtain n db' where b: "assign_each ts clock (Suc k) ?c db1 = (Inr n, db')"
      and n: "n \<le> ?c + length ts"
      and k2: "list_all2 keeps_assigned (Tickets db1) (Tickets db')"
    using Cons.IH[of "Suc k" ?c db1] by blast
  have "assign_each (t # ts) clock k c db = (Inr n, db')" using a b by simp
  moreover have "n \<le> c + length (t # ts)" using n by (auto split: if_splits)
  moreover have "list_all2 keeps_assigned (Tickets db) (Tickets db')"
    using k1 k2 by (rule list_all2_keeps_trans)
  ultimately show ?case by blast
qed

lemma technicianLoads_mem:
  "x \<in> set (technicianLoads tickets techs) \<Longrightarrow>
     \<exists>tech \<in> set techs. x = (Technician_Id tech, loadCount tickets (Technician_Id tech))"
  by (auto simp: technicianLoads_def)

lemma technicianLoads_of_mem:
  "tech \<in> set techs \<Longrightarrow>
     (Technician_Id tech, loadCount tickets (Technician_Id tech)) \<in> set (technicianLoads tickets techs)"
  by (auto simp: technicianLoads_def)

lemma length_filter_conj_le:
  "length (filter (\<lambda>x. P x \<and> Q x) xs) \<le> length (filter P xs)"
  by (induction xs) auto

lemma length_unassignedTickets_le:
  "length (unassignedTickets s e db) \<le> length (filter (\<lambda>t. TechnicianId t = None) (Tickets db))"
  by (auto simp: unassignedTickets_def Let_def length_filter_conj_le split: option.splits)

lemma list_all_save_ticket:
  "list_all P ts \<Longrightarrow> P t' \<Longrightarrow> list_all P (save_ticket t' ts)"
  by (induction ts) auto

lemma paired_found:
  "list_all paired ts \<Longrightarrow> find_ticket i ts = Some t \<Longrightarrow> paired t"
  using find_ticket_Some[of i ts t] by (auto simp: list_all_iff)

lemma paired_create:
  "list_all paired (Tickets db) \<Longrightarrow>
     list_all paired (Tickets (snd (CreateTicketAsync userId request newId now db)))"
  by (auto simp: CreateTicketAsync_def Let_def paired_def split: option.splits)

lemma paired_add_message:
  assumes "list_all paired (Tickets db)"
  shows "list_all paired (Tickets (snd (AddMessageAsync ticketId authorId message status newId now sentAt db)))"
proof (cases "find_ticket ticketId (Tickets db)")
  case None
  then show ?thesis using assms by (simp add: AddMessageAsync_def)
next
  case (Some ticket)
  then have p: "paired ticket" using assms paired_found by blast
  have q: "paired (ticket\<lparr>UpdatedAt := Some now\<rparr>)"
          "\<And>s. paired (ticket\<lparr>Status := s, UpdatedAt := Some now\<rparr>)"
    using p by (simp_all add: paired_def)
  show ?thesis
    using Some assms q
    by (auto simp: AddMessageAsync_def Let_def split: option.splits sum.splits
             intro!: list_all_save_ticket)
qed

lemma paired_assign_one:
  assumes "list_all paired (Tickets db)"
  shows "list_all paired (Tickets (snd (AssignTechnicianToTicket_reread reread ticketId now db)))"
  using assms
  by (auto simp: AssignTechnicianToTicket_reread_def Let_def paired_def
           split: option.splits sum.splits intro!: list_all_save_ticket)

lemma paired_assign_each:
  "list_all paired (Tickets db) \<Longrightarrow>
     list_all paired (Tickets (snd (assign_each ts clock k c db)))"
proof (induction ts arbitrary: k c db)
  case Nil
  then show ?case by simp
next
  case (Cons t ts)
  obtain r db1 where a: "AssignTechnicianToTicketAsync (Ticket_Id t) (clock k) db = (r, db1)"
    by (cases "AssignTechnicianToTicketAsync (Ticket_Id t) (clock k) db") auto
  have p1: "list_all paired (Tickets db1)"
    using paired_assign_one[OF Cons.prems, of "Technicians db" "Ticket_Id t" "clock k"] a
    by (simp add: AssignTechnicianToTicketAsync_def)
  show ?case
    using a p1 Cons.IH[OF p1] by (cases r) auto
qed

lemma paired_assign_batch:
  "list_all paired (Tickets db) \<Longrightarrow>
     list_all paired (Tickets (snd (AssignUnassignedTicketsAsync s e clock db)))"
  by (simp add: AssignUnassignedTicketsAsync_def paired_assign_each)

lemma message_status_is_request:
  "TicketMessages (snd (AddMessageAsync ticketId authorId message (Some s) newId now sentAt db))
     = TicketMessages db
   \<or> (\<exists>m. TicketMessages (snd (AddMessageAsync ticketId authorId message (Some s) newId now sentAt db))
            = TicketMessages db @ [m]
          \<and> Message_Status m = Some s)"
  by (auto simp: AddMessageAsync_def Let_def split: option.splits if_splits)

section \<open>Properties of the services\<close>

subsection \<open>C1: pairing of the two assignment references\<close>

text \<open>
  C1 says that after every mutating operation a ticket's \<open>TechnicianId\<close> is null exactly
  when its \<open>AssignedToUserId\<close> is null. \<open>CreateTicketAsync\<close>, \<open>AddMessageAsync\<close>,
  \<open>AssignTechnicianToTicketAsync\<close> and \<open>AssignUnassignedTicketsAsync\<close> keep the pairing
  (\<open>paired_create\<close>, \<open>paired_add_message\<close>, \<open>paired_assign_one\<close>,
  \<open>paired_assign_batch\<close>). The two admin paths do not. On the sample store, where every
  ticket is paired, \<open>AssignTicketAsync\<close> with the active but unlinked technician 13 leaves
  ticket 102 with \<open>TechnicianId = 13\<close> and \<open>AssignedToUserId\<close> null, and an admin
  \<open>UpdateTicketAsync\<close> whose patch carries \<open>AssignedToUserId = 2\<close> leaves it with
  \<open>AssignedToUserId = 2\<close> and \<open>TechnicianId\<close> null.
\<close>

theorem admin_paths_break_pairing:
  "list_all paired (Tickets sample_db)
   \<and> map_option (\<lambda>t. (TechnicianId t, AssignedToUserId t))
       (find_ticket 102 (Tickets (snd (AssignTicketAsync 102 13 60 sample_db))))
       = Some (Some 13, None)
   \<and> \<not> list_all paired (Tickets (snd (AssignTicketAsync 102 13 60 sample_db)))
   \<and> map_option (\<lambda>t. (TechnicianId t, AssignedToUserId t))
       (find_ticket 102 (Tickets (snd (UpdateTicketAsync 102 3 Admin (sample_patch (Some 2) None) 60 sample_db))))
       = Some (None, Some 2)
   \<and> \<not> list_all paired
          (Tickets (snd (UpdateTicketAsync 102 3 Admin (sample_patch (Some 2) None) 60 sample_db)))"
  by code_simp

subsection \<open>C2: a client cannot close a ticket through a message\<close>

text \<open>
  C2: when a Client who created the ticket calls \<open>AddMessageAsync\<close> with status
  \<open>Resolved\<close> or \<open>Closed\<close>, the call raises \<open>StatusChangeForbiddenException\<close> and the
  store is returned as it was (no message appended, status and \<open>UpdatedAt\<close> untouched);
  and whatever status such a Client requests, the ticket afterwards is in \<open>Resolved\<close> or
  \<open>Closed\<close> only if it already was in that very status before the call.
\<close>

theorem client_close_via_message_forbidden:
  assumes "find_ticket ticketId (Tickets db) = Some ticket"
    and "find_user authorId (Users db) = Some author"
    and "User_Role author = Client"
    and "CreatedByUserId ticket = authorId"
  shows "((status = Resolved \<or> status = Closed) \<longrightarrow>
           AddMessageAsync ticketId authorId message (Some status) newId now sentAt db
             = (Inl StatusChangeForbiddenException, db))
       \<and> (\<forall>t'. find_ticket ticketId
                 (Tickets (snd (AddMessageAsync ticketId authorId message requested newId now sentAt db)))
                 = Some t' \<longrightarrow>
               Status t' = Status ticket \<or> (Status t' \<noteq> Resolved \<and> Status t' \<noteq> Closed))"
proof (intro conjI impI allI)
  assume "status = Resolved \<or> status = Closed"
  with assms show "AddMessageAsync ticketId authorId message (Some status) newId now sentAt db
             = (Inl StatusChangeForbiddenException, db)"
    by (auto simp: AddMessageAsync_def)
next
  fix t'
  assume a: "find_ticket ticketId
                 (Tickets (snd (AddMessageAsync ticketId authorId message requested newId now sentAt db)))
                 = Some t'"
  have i: "Ticket_Id ticket = ticketId" using assms(1) find_ticket_Some by blast
  show "Status t' = Status ticket \<or> (Status t' \<noteq> Resolved \<and> Status t' \<noteq> Closed)"
    using a assms i
    by (auto simp: AddMessageAsync_def Let_def find_ticket_save_same
             split: option.splits if_splits)
qed

text \<open>The client (1) asks to close the own ticket 101 of the sample store.\<close>

theorem client_close_via_message_forbidden_witness:
  "find_ticket 101 (Tickets sample_db) = Some (sample_ticket 101 InProgress (Some 10) (Some 2) None)
   \<and> find_user 1 (Users sample_db) = Some (sample_user 1 ''client'' Client)
   \<and> User_Role (sample_user 1 ''client'' Client) = Client
   \<and> CreatedByUserId (sample_ticket 101 InProgress (Some 10) (Some 2) None) = 1
   \<and> AddMessageAsync 101 1 ''done'' (Some Closed) 900 60 61 sample_db
        = (Inl StatusChangeForbiddenException, sample_db)"
proof -
  have h1: "find_ticket 101 (Tickets sample_db)
              = Some (sample_ticket 101 InProgress (Some 10) (Some 2) None)" by code_simp
  have h2: "find_user 1 (Users sample_db) = Some (sample_user 1 ''client'' Client)" by code_simp
  have h3: "User_Role (sample_user 1 ''client'' Client) = Client" by code_simp
  have h4: "CreatedByUserId (sample_ticket 101 InProgress (Some 10) (Some 2) None) = 1" by code_simp
  have "AddMessageAsync 101 1 ''done'' (Some Closed) 900 60 61 sample_db
          = (Inl StatusChangeForbiddenException, sample_db)"
    using client_close_via_message_forbidden[OF h1 h2 h3 h4, where status = Closed] by simp
  with h1 h2 h3 h4 show ?thesis by simp
qed

subsection \<open>C3: the least loaded candidate is chosen, ties by ascending id\<close>

text \<open>
  C3: for an existing unassigned ticket and a non-empty candidate set (active technicians
  with a linked user), whenever \<open>AssignTechnicianToTicketAsync\<close> chooses a technician, it
  is a candidate whose load (tickets with that \<open>TechnicianId\<close> in status \<open>New\<close> or
  \<open>InProgress\<close>) is minimal over the candidates and whose id is the lowest among the
  candidates of equal load; and when the technician ids are unique (the table's primary
  key) it does choose one and writes the assignment to the ticket.
\<close>

theorem assign_one_selects_least_loaded:
  assumes tk: "find_ticket ticketId (Tickets db) = Some ticket"
    and un: "TechnicianId ticket = None"
    and el: "eligibleTechnicians (Technicians db) \<noteq> []"
  shows "(\<forall>techId db'.
            AssignTechnicianToTicketAsync ticketId now db = (Inr (Some techId), db') \<longrightarrow>
            (\<exists>tech \<in> set (eligibleTechnicians (Technicians db)).
               Technician_Id tech = techId
             \<and> (\<forall>c \<in> set (eligibleTechnicians (Technicians db)).
                   loadCount (Tickets db) techId \<le> loadCount (Tickets db) (Technician_Id c)
                 \<and> (loadCount (Tickets db) (Technician_Id c) = loadCount (Tickets db) techId
                      \<longrightarrow> techId \<le> Technician_Id c))))
       \<and> (distinct (map Technician_Id (Technicians db)) \<longrightarrow>
            (\<exists>tech db'.
               AssignTechnicianToTicketAsync ticketId now db
                 = (Inr (Some (Technician_Id tech)), db')
             \<and> tech \<in> set (eligibleTechnicians (Technicians db))
             \<and> find_ticket ticketId (Tickets db')
                  = Some (ticket\<lparr>TechnicianId := Some (Technician_Id tech),
                                  AssignedToUserId := UserId tech,
                                  Status := InProgress,
                                  UpdatedAt := Some now\<rparr>)))"
proof -
  let ?el = "eligibleTechnicians (Technicians db)"
  let ?loads = "technicianLoads (Tickets db) ?el"
  let ?L = "loadCount (Tickets db)"
  obtain x where sel: "selectedTechnician ?loads = Inr x" and xin: "x \<in> set ?loads"
      and min: "\<forall>y \<in> set ?loads. (snd x, fst x) \<le> (snd y, fst y)"
    using selectedTechnician_min[OF technicianLoads_nonempty[OF el, of "Tickets db"]] by blast
  obtain tech where tin: "tech \<in> set ?el" and x: "x = (Technician_Id tech, ?L (Technician_Id tech))"
    using technicianLoads_mem[OF xin] by blast
  have tin': "tech \<in> set (Technicians db)" and link: "UserId tech \<noteq> None"
    using tin by (auto simp: eligibleTechnicians_def)
  have i: "Ticket_Id ticket = ticketId" using tk find_ticket_Some by blast
  have least: "\<forall>c \<in> set ?el. ?L (Technician_Id tech) \<le> ?L (Technician_Id c)
                 \<and> (?L (Technician_Id c) = ?L (Technician_Id tech)
                       \<longrightarrow> Technician_Id tech \<le> Technician_Id c)"
  proof
    fix c assume "c \<in> set ?el"
    then have "(Technician_Id c, ?L (Technician_Id c)) \<in> set ?loads"
      by (rule technicianLoads_of_mem)
    with min have "(snd x, fst x) \<le> (?L (Technician_Id c), Technician_Id c)" by fastforce
    then show "?L (Technician_Id tech) \<le> ?L (Technician_Id c)
                 \<and> (?L (Technician_Id c) = ?L (Technician_Id tech)
                       \<longrightarrow> Technician_Id tech \<le> Technician_Id c)"
      using x by auto
  qed
  have chosen: "techId = Technician_Id tech"
    if "AssignTechnicianToTicketAsync ticketId now db = (Inr (Some techId), db')" for techId db'
    using that tk un el sel x
    by (auto simp: AssignTechnicianToTicketAsync_def AssignTechnicianToTicket_reread_def Let_def
             split: option.splits if_splits)
  have part1: "\<forall>techId db'.
            AssignTechnicianToTicketAsync ticketId now db = (Inr (Some techId), db') \<longrightarrow>
            (\<exists>tech \<in> set ?el.
               Technician_Id tech = techId
             \<and> (\<forall>c \<in> set ?el.
                   ?L techId \<le> ?L (Technician_Id c)
                 \<and> (?L (Technician_Id c) = ?L techId \<longrightarrow> techId \<le> Technician_Id c)))"
  proof (intro allI impI)
    fix techId db'
    assume "AssignTechnicianToTicketAsync ticketId now db = (Inr (Some techId), db')"
    then have "techId = Technician_Id tech" by (rule chosen)
    with tin least show "\<exists>tech \<in> set ?el.
               Technician_Id tech = techId
             \<and> (\<forall>c \<in> set ?el.
                   ?L techId \<le> ?L (Technician_Id c)
                 \<and> (?L (Technician_Id c) = ?L techId \<longrightarrow> techId \<le> Technician_Id c))"
      by blast
  qed
  have part2: "\<exists>tech db'.
               AssignTechnicianToTicketAsync ticketId now db
                 = (Inr (Some (Technician_Id tech)), db')
             \<and> tech \<in> set ?el
             \<and> find_ticket ticketId (Tickets db')
                  = Some (ticket\<lparr>TechnicianId := Some (Technician_Id tech),
                                  AssignedToUserId := UserId tech,
                                  Status := InProgress,
                                  UpdatedAt := Some now\<rparr>)"
    if d: "distinct (map Technician_Id (Technicians db))"
  proof -
    let ?t' = "ticket\<lparr>TechnicianId := Some (Technician_Id tech), AssignedToUserId := UserId tech,
                       Status := InProgress, UpdatedAt := Some now\<rparr>"
    have rr: "find_technician (fst x) (Technicians db) = Some tech"
      using find_technician_distinct[OF d tin'] x by simp
    have res: "AssignTechnicianToTicketAsync ticketId now db
                 = (Inr (Some (Technician_Id tech)), db\<lparr>Tickets := save_ticket ?t' (Tickets db)\<rparr>)"
      using tk un el sel rr link x
      by (simp add: AssignTechnicianToTicketAsync_def AssignTechnicianToTicket_reread_def Let_def)
    have fnd: "find_ticket ticketId (Tickets (db\<lparr>Tickets := save_ticket ?t' (Tickets db)\<rparr>))
                 = Some ?t'"
      using tk i by (simp add: find_ticket_save_same)
    from res tin fnd show ?thesis by blast
  qed
  from part1 part2 show ?thesis by blast
qed

text \<open>
  The sample store: A has two open tickets, B none, C none but is inactive; B (11) is chosen
  for ticket 102.
\<close>

theorem assign_one_selects_least_loaded_witness:
  "find_ticket 102 (Tickets sample_db) = Some (sample_ticket 102 New None None None)
   \<and> TechnicianId (sample_ticket 102 New None None None) = None
   \<and> eligibleTechnicians (Technicians sample_db) \<noteq> []
   \<and> distinct (map Technician_Id (Technicians sample_db))
   \<and> map (loadCount (Tickets sample_db)) [10, 11, 12] = [2, 0, 0]
   \<and> fst (AssignTechnicianToTicketAsync 102 50 sample_db) = Inr (Some 11)
   \<and> (\<exists>tech. fst (AssignTechnicianToTicketAsync 102 50 sample_db) = Inr (Some (Technician_Id tech))
          \<and> tech \<in> set (eligibleTechnicians (Technicians sample_db)))
   \<and> (\<exists>tech. tech \<in> set (eligibleTechnicians (Technicians sample_db))
          \<and> Technician_Id tech = 11
          \<and> (\<forall>c \<in> set (eligibleTechnicians (Technicians sample_db)).
               loadCount (Tickets sample_db) 11 \<le> loadCount (Tickets sample_db) (Technician_Id c)))"
proof -
  let ?el = "eligibleTechnicians (Technicians sample_db)"
  have h1: "find_ticket 102 (Tickets sample_db) = Some (sample_ticket 102 New None None None)"
    by code_simp
  have h2: "TechnicianId (sample_ticket 102 New None None None) = None" by code_simp
  have h3: "?el \<noteq> []" by code_simp
  have h4: "distinct (map Technician_Id (Technicians sample_db))" by code_simp
  have e1: "map (loadCount (Tickets sample_db)) [10, 11, 12] = [2, 0, 0]" by code_simp
  have e2: "fst (AssignTechnicianToTicketAsync 102 50 sample_db) = Inr (Some 11)" by code_simp
  note T = assign_one_selects_least_loaded[OF h1 h2 h3, of 50]
  from T h4 obtain tech db' where r:
      "AssignTechnicianToTicketAsync 102 50 sample_db = (Inr (Some (Technician_Id tech)), db')"
      "tech \<in> set ?el"
    by blast
  then have a: "\<exists>tech. fst (AssignTechnicianToTicketAsync 102 50 sample_db)
                    = Inr (Some (Technician_Id tech)) \<and> tech \<in> set ?el"
    by (intro exI[of _ tech]) simp
  from r(1) e2 have r11: "AssignTechnicianToTicketAsync 102 50 sample_db = (Inr (Some 11), db')"
    by simp
  from T r11 have b: "\<exists>tech. tech \<in> set ?el \<and> Technician_Id tech = 11
          \<and> (\<forall>c \<in> set ?el.
               loadCount (Tickets sample_db) 11 \<le> loadCount (Tickets sample_db) (Technician_Id c))"
    by blast
  from h1 h2 h3 h4 e1 e2 a b show ?thesis by (intro conjI)
qed

subsection \<open>C4: assigned tickets are never touched; the batch is idempotent\<close>

text \<open>
  C4: \<open>AssignTechnicianToTicketAsync\<close> on a ticket whose \<open>TechnicianId\<close> is set returns
  null and leaves the store as it was. Two runs of \<open>AssignUnassignedTicketsAsync\<close> in
  succession (with any date ranges) both return a count; the second count is at most the
  number of tickets that were unassigned after the first run, and every ticket that had a
  technician after the first run is the same ticket after the second.
\<close>

theorem assign_batch_idempotent:
  "(find_ticket ticketId (Tickets db) = Some ticket \<and> TechnicianId ticket \<noteq> None \<longrightarrow>
       AssignTechnicianToTicketAsync ticketId now db = (Inr None, db))
   \<and> (\<exists>n1 db1 n2 db2.
         AssignUnassignedTicketsAsync s1 e1 clock1 db = (Inr n1, db1)
       \<and> AssignUnassignedTicketsAsync s2 e2 clock2 db1 = (Inr n2, db2)
       \<and> n2 \<le> length (filter (\<lambda>t. TechnicianId t = None) (Tickets db1))
       \<and> list_all2 keeps_assigned (Tickets db1) (Tickets db2))"
proof (intro conjI impI)
  assume "find_ticket ticketId (Tickets db) = Some ticket \<and> TechnicianId ticket \<noteq> None"
  then show "AssignTechnicianToTicketAsync ticketId now db = (Inr None, db)"
    by (auto simp: AssignTechnicianToTicketAsync_def AssignTechnicianToTicket_reread_def)
next
  obtain n1 db1 where r1: "AssignUnassignedTicketsAsync s1 e1 clock1 db = (Inr n1, db1)"
    unfolding AssignUnassignedTicketsAsync_def using assign_each_total by blast
  obtain n2 db2 where r2: "AssignUnassignedTicketsAsync s2 e2 clock2 db1 = (Inr n2, db2)"
      and n: "n2 \<le> 0 + length (unassignedTickets s2 e2 db1)"
      and k: "list_all2 keeps_assigned (Tickets db1) (Tickets db2)"
    unfolding AssignUnassignedTicketsAsync_def using assign_each_total by blast
  have "length (unassignedTickets s2 e2 db1)
          \<le> length (filter (\<lambda>t. TechnicianId t = None) (Tickets db1))"
    by (rule length_unassignedTickets_le)
  with n have "n2 \<le> length (filter (\<lambda>t. TechnicianId t = None) (Tickets db1))" by simp
  with r1 r2 k show "\<exists>n1 db1 n2 db2.
         AssignUnassignedTicketsAsync s1 e1 clock1 db = (Inr n1, db1)
       \<and> AssignUnassignedTicketsAsync s2 e2 clock2 db1 = (Inr n2, db2)
       \<and> n2 \<le> length (filter (\<lambda>t. TechnicianId t = None) (Tickets db1))
       \<and> list_all2 keeps_assigned (Tickets db1) (Tickets db2)" by blast
qed

text \<open>
  Ticket 100 of the sample store is assigned already; the first batch run assigns the one
  open ticket, the second none.
\<close>

theorem assign_batch_idempotent_witness:
  "find_ticket 100 (Tickets sample_db) = Some (sample_ticket 100 New (Some 10) (Some 2) (Some 99))
   \<and> TechnicianId (sample_ticket 100 New (Some 10) (Some 2) (Some 99)) \<noteq> None
   \<and> AssignTechnicianToTicketAsync 100 50 sample_db = (Inr None, sample_db)
   \<and> fst (AssignUnassignedTicketsAsync None None (\<lambda>k. 50 + k) sample_db) = Inr 1
   \<and> fst (AssignUnassignedTicketsAsync None None (\<lambda>k. 70 + k)
            (snd (AssignUnassignedTicketsAsync None None (\<lambda>k. 50 + k) sample_db))) = Inr 0
   \<and> (\<exists>n1 db1 n2 db2.
         AssignUnassignedTicketsAsync None None (\<lambda>k. 50 + k) sample_db = (Inr n1, db1)
       \<and> AssignUnassignedTicketsAsync None None (\<lambda>k. 70 + k) db1 = (Inr n2, db2)
       \<and> n2 \<le> length (filter (\<lambda>t. TechnicianId t = None) (Tickets db1))
       \<and> list_all2 keeps_assigned (Tickets db1) (Tickets db2))"
proof -
  let ?t = "sample_ticket 100 New (Some 10) (Some 2) (Some 99)"
  have h1: "find_ticket 100 (Tickets sample_db) = Some ?t" by code_simp
  have h2: "TechnicianId ?t \<noteq> None" by code_simp
  have e1: "fst (AssignUnassignedTicketsAsync None None (\<lambda>k. 50 + k) sample_db) = Inr 1"
    by code_simp
  have e2: "fst (AssignUnassignedTicketsAsync None None (\<lambda>k. 70 + k)
            (snd (AssignUnassignedTicketsAsync None None (\<lambda>k. 50 + k) sample_db))) = Inr 0"
    by code_simp
  note T = assign_batch_idempotent[of 100 sample_db ?t 50 None None "\<lambda>k. 50 + k" None None "\<lambda>k. 70 + k"]
  from T h1 h2 have a: "AssignTechnicianToTicketAsync 100 50 sample_db = (Inr None, sample_db)"
    by blast
  from T have b: "\<exists>n1 db1 n2 db2.
         AssignUnassignedTicketsAsync None None (\<lambda>k. 50 + k) sample_db = (Inr n1, db1)
       \<and> AssignUnassignedTicketsAsync None None (\<lambda>k. 70 + k) db1 = (Inr n2, db2)
       \<and> n2 \<le> length (filter (\<lambda>t. TechnicianId t = None) (Tickets db1))
       \<and> list_all2 keeps_assigned (Tickets db1) (Tickets db2)"
    by (rule conjunct2)
  from h1 h2 a e1 e2 b show ?thesis by (intro conjI)
qed

subsection \<open>C5: no candidate, or a linkage lost before the write\<close>

text \<open>
  C5: on an existing unassigned ticket, when the candidate set is empty, or when the
  selected technician's row read again just before the write has no linked user,
  \<open>AssignTechnicianToTicketAsync\<close> returns null without raising and the store is the one
  it started from, so the ticket is unchanged and still has no technician.
\<close>

theorem no_candidate_or_lost_link_no_assignment:
  assumes tk: "find_ticket ticketId (Tickets db) = Some ticket"
    and un: "TechnicianId ticket = None"
    and c: "eligibleTechnicians (Technicians db) = [] \<or>
            (\<exists>sel tech.
               selectedTechnician (technicianLoads (Tickets db) (eligibleTechnicians (Technicians db)))
                 = Inr sel
             \<and> find_technician (fst sel) reread = Some tech \<and> UserId tech = None)"
  shows "AssignTechnicianToTicket_reread reread ticketId now db = (Inr None, db)
       \<and> find_ticket ticketId
           (Tickets (snd (AssignTechnicianToTicket_reread reread ticketId now db))) = Some ticket
       \<and> (eligibleTechnicians (Technicians db) = [] \<longrightarrow>
            AssignTechnicianToTicketAsync ticketId now db = (Inr None, db))"
proof -
  have r: "AssignTechnicianToTicket_reread reread ticketId now db = (Inr None, db)"
    using tk un c by (auto simp: AssignTechnicianToTicket_reread_def Let_def)
  have s: "eligibleTechnicians (Technicians db) = [] \<longrightarrow>
            AssignTechnicianToTicketAsync ticketId now db = (Inr None, db)"
    using tk un
    by (simp add: AssignTechnicianToTicketAsync_def AssignTechnicianToTicket_reread_def Let_def)
  from r s tk show ?thesis by simp
qed

text \<open>
  First the store whose only technician is active but unlinked; then the sample store with
  technician B losing its linked user between the two reads.
\<close>

theorem no_candidate_or_lost_link_no_assignment_witness:
  "find_ticket 102 (Tickets sample_unlinked_db) = Some (sample_ticket 102 New None None None)
   \<and> eligibleTechnicians (Technicians sample_unlinked_db) = []
   \<and> AssignTechnicianToTicketAsync 102 50 sample_unlinked_db = (Inr None, sample_unlinked_db)
   \<and> find_ticket 102 (Tickets sample_db) = Some (sample_ticket 102 New None None None)
   \<and> TechnicianId (sample_ticket 102 New None None None) = None
   \<and> selectedTechnician (technicianLoads (Tickets sample_db)
        (eligibleTechnicians (Technicians sample_db))) = Inr (11, 0)
   \<and> find_technician 11 sample_reread = Some (sample_technician 11 ''B'' True None)
   \<and> UserId (sample_technician 11 ''B'' True None) = None
   \<and> AssignTechnicianToTicket_reread sample_reread 102 50 sample_db = (Inr None, sample_db)"
proof -
  let ?t = "sample_ticket 102 New None None None"
  have h1: "find_ticket 102 (Tickets sample_unlinked_db) = Some ?t" by code_simp
  have h2: "TechnicianId ?t = None" by code_simp
  have h3: "eligibleTechnicians (Technicians sample_unlinked_db) = []" by code_simp
  have c1: "eligibleTechnicians (Technicians sample_unlinked_db) = [] \<or>
            (\<exists>sel tech.
               selectedTechnician (technicianLoads (Tickets sample_unlinked_db)
                   (eligibleTechnicians (Technicians sample_unlinked_db))) = Inr sel
             \<and> find_technician (fst sel) (Technicians sample_unlinked_db) = Some tech
             \<and> UserId tech = None)"
    using h3 by simp
  have a: "AssignTechnicianToTicketAsync 102 50 sample_unlinked_db = (Inr None, sample_unlinked_db)"
    using no_candidate_or_lost_link_no_assignment[OF h1 h2 c1, of 50] h3 by simp
  have g1: "find_ticket 102 (Tickets sample_db) = Some ?t" by code_simp
  have g3: "selectedTechnician (technicianLoads (Tickets sample_db)
        (eligibleTechnicians (Technicians sample_db))) = Inr (11, 0)" by code_simp
  have g4: "find_technician 11 sample_reread = Some (sample_technician 11 ''B'' True None)"
    by code_simp
  have g5: "UserId (sample_technician 11 ''B'' True None) = None" by code_simp
  have c2: "eligibleTechnicians (Technicians sample_db) = [] \<or>
            (\<exists>sel tech.
               selectedTechnician (technicianLoads (Tickets sample_db)
                   (eligibleTechnicians (Technicians sample_db))) = Inr sel
             \<and> find_technician (fst sel) sample_reread = Some tech
             \<and> UserId tech = None)"
    using g3 g4 g5 by auto
  have b: "AssignTechnicianToTicket_reread sample_reread 102 50 sample_db = (Inr None, sample_db)"
    using no_candidate_or_lost_link_no_assignment[OF g1 h2 c2, of 50] by simp
  from h1 h3 a g1 h2 g3 g4 g5 b show ?thesis by (intro conjI)
qed

subsection \<open>C6: create, then assign\<close>

text \<open>
  C6: \<open>CreateTicketAsync\<close> with a fresh id stores a ticket in status \<open>New\<close> with both
  assignment references null; if \<open>AssignTechnicianToTicketAsync\<close> is then called on it
  and returns a technician id, the ticket is that ticket with, in one update, status
  \<open>InProgress\<close>, \<open>TechnicianId\<close> the id of the chosen technician's profile and
  \<open>AssignedToUserId\<close> that profile's linked user, which is not null.
\<close>

theorem create_then_assign_round_trip:
  assumes fresh: "newId \<notin> set (map Ticket_Id (Tickets db))"
  shows "\<exists>resp db1 t.
           CreateTicketAsync userId request newId now db = (Inr (Some resp), db1)
         \<and> find_ticket newId (Tickets db1) = Some t
         \<and> Status t = New \<and> TechnicianId t = None \<and> AssignedToUserId t = None
         \<and> Response_Status resp = New \<and> Response_AssignedToUserId resp = None
         \<and> (\<forall>techId db2.
               AssignTechnicianToTicketAsync newId now' db1 = (Inr (Some techId), db2) \<longrightarrow>
               (\<exists>t2 tech.
                  find_ticket newId (Tickets db2) = Some t2
                \<and> find_technician techId (Technicians db1) = Some tech
                \<and> Technician_Id tech = techId
                \<and> t2 = t\<lparr>TechnicianId := Some (Technician_Id tech),
                          AssignedToUserId := UserId tech,
                          Status := InProgress,
                          UpdatedAt := Some now'\<rparr>
                \<and> UserId tech \<noteq> None))"
proof -
  let ?t = "\<lparr> Ticket_Id = newId, Title = Create_Title request,
               Description = Create_Description request, CategoryId = Create_CategoryId request,
               SubcategoryId = Create_SubcategoryId request, Priority = Create_Priority request,
               Status = New, CreatedByUserId = userId, AssignedToUserId = None,
               TechnicianId = None, DueDate = None, CreatedAt = now, UpdatedAt = None \<rparr>"
  let ?db1 = "db\<lparr>Tickets := Tickets db @ [?t]\<rparr>"
  have f: "find_ticket newId (Tickets ?db1) = Some ?t"
    unfolding find_ticket_def using fresh by (simp add: find_append_fresh)
  have cr: "CreateTicketAsync userId request newId now db = (Inr (Some (MapToResponse ?db1 ?t)), ?db1)"
    using fresh f by (simp add: CreateTicketAsync_def Let_def)
  have rs: "Response_Status (MapToResponse ?db1 ?t) = New
          \<and> Response_AssignedToUserId (MapToResponse ?db1 ?t) = None"
    by (simp add: MapToResponse_def)
  have asg: "\<forall>techId db2.
               AssignTechnicianToTicketAsync newId now' ?db1 = (Inr (Some techId), db2) \<longrightarrow>
               (\<exists>t2 tech.
                  find_ticket newId (Tickets db2) = Some t2
                \<and> find_technician techId (Technicians ?db1) = Some tech
                \<and> Technician_Id tech = techId
                \<and> t2 = ?t\<lparr>TechnicianId := Some (Technician_Id tech),
                          AssignedToUserId := UserId tech,
                          Status := InProgress,
                          UpdatedAt := Some now'\<rparr>
                \<and> UserId tech \<noteq> None)"
  proof (intro allI impI)
    fix techId db2
    assume a: "AssignTechnicianToTicketAsync newId now' ?db1 = (Inr (Some techId), db2)"
    show "\<exists>t2 tech.
                  find_ticket newId (Tickets db2) = Some t2
                \<and> find_technician techId (Technicians ?db1) = Some tech
                \<and> Technician_Id tech = techId
                \<and> t2 = ?t\<lparr>TechnicianId := Some (Technician_Id tech),
                          AssignedToUserId := UserId tech,
                          Status := InProgress,
                          UpdatedAt := Some now'\<rparr>
                \<and> UserId tech \<noteq> None"
      using a f
      by (auto simp: AssignTechnicianToTicketAsync_def AssignTechnicianToTicket_reread_def Let_def
                     find_ticket_save_same
               split: option.splits sum.splits if_splits dest: find_technician_Some)
  qed
  from cr f rs asg show ?thesis by (intro exI[of _ "MapToResponse ?db1 ?t"] exI[of _ ?db1] exI[of _ ?t]) simp
qed

text \<open>Ticket 104 is created in the sample store and then assigned to B (11, user 4).\<close>

theorem create_then_assign_round_trip_witness:
  "104 \<notin> set (map Ticket_Id (Tickets sample_db))
   \<and> fst (AssignTechnicianToTicketAsync 104 61
            (snd (CreateTicketAsync 1 sample_create 104 60 sample_db))) = Inr (Some 11)
   \<and> map_option (\<lambda>t. (Status t, TechnicianId t, AssignedToUserId t))
        (find_ticket 104 (Tickets (snd (AssignTechnicianToTicketAsync 104 61
            (snd (CreateTicketAsync 1 sample_create 104 60 sample_db))))))
        = Some (InProgress, Some 11, Some 4)
   \<and> (\<exists>resp db1 t.
           CreateTicketAsync 1 sample_create 104 60 sample_db = (Inr (Some resp), db1)
         \<and> find_ticket 104 (Tickets db1) = Some t
         \<and> Status t = New \<and> TechnicianId t = None \<and> AssignedToUserId t = None
         \<and> (\<exists>t2 tech.
               find_ticket 104 (Tickets (snd (AssignTechnicianToTicketAsync 104 61 db1))) = Some t2
             \<and> find_technician 11 (Technicians db1) = Some tech
             \<and> Status t2 = InProgress \<and> TechnicianId t2 = Some 11
             \<and> AssignedToUserId t2 = UserId tech \<and> UserId tech \<noteq> None))"
proof -
  have h: "104 \<notin> set (map Ticket_Id (Tickets sample_db))" by code_simp
  have e1: "fst (AssignTechnicianToTicketAsync 104 61
            (snd (CreateTicketAsync 1 sample_create 104 60 sample_db))) = Inr (Some 11)"
    by code_simp
  have e2: "map_option (\<lambda>t. (Status t, TechnicianId t, AssignedToUserId t))
        (find_ticket 104 (Tickets (snd (AssignTechnicianToTicketAsync 104 61
            (snd (CreateTicketAsync 1 sample_create 104 60 sample_db))))))
        = Some (InProgress, Some 11, Some 4)"
    by code_simp
  obtain resp db1 t where
      c: "CreateTicketAsync 1 sample_create 104 60 sample_db = (Inr (Some resp), db1)"
      and f: "find_ticket 104 (Tickets db1) = Some t"
      and n: "Status t = New" "TechnicianId t = None" "AssignedToUserId t = None"
      and a: "\<forall>techId db2.
               AssignTechnicianToTicketAsync 104 61 db1 = (Inr (Some techId), db2) \<longrightarrow>
               (\<exists>t2 tech.
                  find_ticket 104 (Tickets db2) = Some t2
                \<and> find_technician techId (Technicians db1) = Some tech
                \<and> Technician_Id tech = techId
                \<and> t2 = t\<lparr>TechnicianId := Some (Technician_Id tech),
                          AssignedToUserId := UserId tech,
                          Status := InProgress,
                          UpdatedAt := Some 61\<rparr>
                \<and> UserId tech \<noteq> None)"
    using create_then_assign_round_trip[OF h, of 1 sample_create 60 61] by blast
  have d: "AssignTechnicianToTicketAsync 104 61 db1
             = (Inr (Some 11), snd (AssignTechnicianToTicketAsync 104 61 db1))"
    using e1 c by (simp add: prod_eq_iff)
  from a[rule_format, OF d] obtain t2 tech where
      "find_ticket 104 (Tickets (snd (AssignTechnicianToTicketAsync 104 61 db1))) = Some t2"
      "find_technician 11 (Technicians db1) = Some tech"
      "Technician_Id tech = 11"
      "t2 = t\<lparr>TechnicianId := Some (Technician_Id tech), AssignedToUserId := UserId tech,
               Status := InProgress, UpdatedAt := Some 61\<rparr>"
      "UserId tech \<noteq> None"
    by blast
  then have "\<exists>t2 tech.
               find_ticket 104 (Tickets (snd (AssignTechnicianToTicketAsync 104 61 db1))) = Some t2
             \<and> find_technician 11 (Technicians db1) = Some tech
             \<and> Status t2 = InProgress \<and> TechnicianId t2 = Some 11
             \<and> AssignedToUserId t2 = UserId tech \<and> UserId tech \<noteq> None"
    by (intro exI[of _ t2] exI[of _ tech]) simp
  with c f n have "\<exists>resp db1 t.
           CreateTicketAsync 1 sample_create 104 60 sample_db = (Inr (Some resp), db1)
         \<and> find_ticket 104 (Tickets db1) = Some t
         \<and> Status t = New \<and> TechnicianId t = None \<and> AssignedToUserId t = None
         \<and> (\<exists>t2 tech.
               find_ticket 104 (Tickets (snd (AssignTechnicianToTicketAsync 104 61 db1))) = Some t2
             \<and> find_technician 11 (Technicians db1) = Some tech
             \<and> Status t2 = InProgress \<and> TechnicianId t2 = Some 11
             \<and> AssignedToUserId t2 = UserId tech \<and> UserId tech \<noteq> None)"
    by (intro exI[of _ resp] exI[of _ db1] exI[of _ t]) simp
  with h e1 e2 show ?thesis by (intro conjI)
qed

subsection \<open>C7: out of scope looks like not found\<close>

text \<open>
  C7: for an existing ticket outside the actor's scope (a Client who did not create it, or
  a Technician who is neither its \<open>TechnicianId\<close> nor its \<open>AssignedToUserId\<close>),
  \<open>GetTicketAsync\<close>, \<open>UpdateTicketAsync\<close> and \<open>AddMessageAsync\<close> return null and leave
  the store unchanged, which is exactly what they return for an id that is in no row.
\<close>

theorem out_of_scope_is_not_found:
  assumes "find_ticket i (Tickets db) = Some ticket"
    and "find_ticket j (Tickets db) = None"
    and "find_user userId (Users db) = Some actor"
    and "User_Role actor = role"
    and "(role = Client \<and> CreatedByUserId ticket \<noteq> userId) \<or>
         (role = Technician \<and> TechnicianId ticket \<noteq> Some userId
            \<and> AssignedToUserId ticket \<noteq> Some userId)"
  shows "GetTicketAsync i userId role db = None
       \<and> GetTicketAsync j userId role db = None
       \<and> UpdateTicketAsync i userId role request now db = (None, db)
       \<and> UpdateTicketAsync j userId role request now db = (None, db)
       \<and> AddMessageAsync i userId message status newId now sentAt db = (Inr None, db)
       \<and> AddMessageAsync j userId message status newId now sentAt db = (Inr None, db)"
proof -
  have g: "GetTicketAsync i userId role db = None"
    using assms(1,5) by (auto simp: GetTicketAsync_def)
  have g': "GetTicketAsync j userId role db = None"
    using assms(2) by (simp add: GetTicketAsync_def)
  have u: "UpdateTicketAsync i userId role request now db = (None, db)"
    using assms(1,5) by (auto simp: UpdateTicketAsync_def)
  have u': "UpdateTicketAsync j userId role request now db = (None, db)"
    using assms(2) by (simp add: UpdateTicketAsync_def)
  have a: "AddMessageAsync i userId message status newId now sentAt db = (Inr None, db)"
    using assms(1,3,4,5) by (auto simp: AddMessageAsync_def)
  have a': "AddMessageAsync j userId message status newId now sentAt db = (Inr None, db)"
    using assms(2) by (simp add: AddMessageAsync_def)
  from g g' u u' a a' show ?thesis by simp
qed

text \<open>Technician account 4 on ticket 100, which is assigned to technician 10 (user 2).\<close>

theorem out_of_scope_is_not_found_witness:
  "find_ticket 100 (Tickets sample_db) = Some (sample_ticket 100 New (Some 10) (Some 2) (Some 99))
   \<and> find_ticket 999 (Tickets sample_db) = None
   \<and> find_user 4 (Users sample_db) = Some (sample_user 4 ''tech.b'' Technician)
   \<and> User_Role (sample_user 4 ''tech.b'' Technician) = Technician
   \<and> TechnicianId (sample_ticket 100 New (Some 10) (Some 2) (Some 99)) \<noteq> Some 4
   \<and> AssignedToUserId (sample_ticket 100 New (Some 10) (Some 2) (Some 99)) \<noteq> Some 4
   \<and> GetTicketAsync 100 4 Technician sample_db = None
   \<and> GetTicketAsync 999 4 Technician sample_db = None
   \<and> UpdateTicketAsync 100 4 Technician (sample_patch None None) 60 sample_db = (None, sample_db)
   \<and> UpdateTicketAsync 999 4 Technician (sample_patch None None) 60 sample_db = (None, sample_db)
   \<and> AddMessageAsync 100 4 ''hi'' None 900 60 61 sample_db = (Inr None, sample_db)
   \<and> AddMessageAsync 999 4 ''hi'' None 900 60 61 sample_db = (Inr None, sample_db)"
proof -
  let ?t = "sample_ticket 100 New (Some 10) (Some 2) (Some 99)"
  have h1: "find_ticket 100 (Tickets sample_db) = Some ?t" by code_simp
  have h2: "find_ticket 999 (Tickets sample_db) = None" by code_simp
  have h3: "find_user 4 (Users sample_db) = Some (sample_user 4 ''tech.b'' Technician)" by code_simp
  have h4: "User_Role (sample_user 4 ''tech.b'' Technician) = Technician" by code_simp
  have s1: "TechnicianId ?t \<noteq> Some 4" by code_simp
  have s2: "AssignedToUserId ?t \<noteq> Some 4" by code_simp
  have h5: "(Technician = Client \<and> CreatedByUserId ?t \<noteq> 4) \<or>
         (Technician = Technician \<and> TechnicianId ?t \<noteq> Some 4 \<and> AssignedToUserId ?t \<noteq> Some 4)"
    using s1 s2 by simp
  note T = out_of_scope_is_not_found[OF h1 h2 h3 h4 h5,
      of "sample_patch None None" 60 "''hi''" None 900 61]
  from h1 h2 h3 h4 s1 s2 T show ?thesis by (intro conjI) simp_all
qed

subsection \<open>C8: reopening through a message\<close>

text \<open>
  C8: on a ticket in status \<open>Resolved\<close> or \<open>Closed\<close>, \<open>AddMessageAsync\<close> with status
  \<open>InProgress\<close> by any author who passes the access check (a Client who created the
  ticket, a Technician it is assigned to, any Admin) and with a fresh message id returns
  the message, appends exactly that message, and sets the ticket's status to
  \<open>InProgress\<close>.
\<close>

theorem reopen_via_message_allowed:
  assumes tk: "find_ticket ticketId (Tickets db) = Some ticket"
    and st: "Status ticket = Resolved \<or> Status ticket = Closed"
    and au: "find_user authorId (Users db) = Some author"
    and c: "User_Role author = Client \<longrightarrow> CreatedByUserId ticket = authorId"
    and t: "User_Role author = Technician \<longrightarrow>
              TechnicianId ticket = Some authorId \<or> AssignedToUserId ticket = Some authorId"
    and fresh: "newId \<notin> set (map Message_Id (TicketMessages db))"
  shows "\<exists>dto db'.
           AddMessageAsync ticketId authorId message (Some InProgress) newId now sentAt db
             = (Inr (Some dto), db')
         \<and> Dto_Id dto = newId \<and> Dto_Message dto = message \<and> Dto_Status dto = Some InProgress
         \<and> TicketMessages db' = TicketMessages db @
              [\<lparr> Message_Id = newId, Message_TicketId = ticketId, AuthorUserId = authorId,
                 Message = message, Message_CreatedAt = sentAt,
                 Message_Status = Some InProgress \<rparr>]
         \<and> find_ticket ticketId (Tickets db')
              = Some (ticket\<lparr>Status := InProgress, UpdatedAt := Some now\<rparr>)"
proof -
  let ?m = "\<lparr> Message_Id = newId, Message_TicketId = ticketId, AuthorUserId = authorId,
                 Message = message, Message_CreatedAt = sentAt,
                 Message_Status = Some InProgress \<rparr>"
  have i: "Ticket_Id ticket = ticketId" using tk find_ticket_Some by blast
  have f: "find (\<lambda>m. Message_Id m = newId) (TicketMessages db @ [?m]) = Some ?m"
    using fresh by (intro find_append_fresh) auto
  show ?thesis
    using tk st au c t fresh i f
    by (cases "User_Role author")
       (auto simp: AddMessageAsync_def Let_def message_dto_def find_ticket_save_same)
qed

text \<open>The client (1) reopens the closed ticket 103 of the sample store.\<close>

theorem reopen_via_message_allowed_witness:
  "find_ticket 103 (Tickets sample_db) = Some (sample_ticket 103 Closed (Some 11) (Some 4) None)
   \<and> Status (sample_ticket 103 Closed (Some 11) (Some 4) None) = Closed
   \<and> find_user 1 (Users sample_db) = Some (sample_user 1 ''client'' Client)
   \<and> User_Role (sample_user 1 ''client'' Client) = Client
   \<and> CreatedByUserId (sample_ticket 103 Closed (Some 11) (Some 4) None) = 1
   \<and> 900 \<notin> set (map Message_Id (TicketMessages sample_db))
   \<and> (\<exists>dto db'.
         AddMessageAsync 103 1 ''again'' (Some InProgress) 900 60 61 sample_db = (Inr (Some dto), db')
       \<and> Dto_Status dto = Some InProgress
       \<and> length (TicketMessages db') = 1
       \<and> map_option Status (find_ticket 103 (Tickets db')) = Some InProgress)"
proof -
  let ?t = "sample_ticket 103 Closed (Some 11) (Some 4) None"
  have h1: "find_ticket 103 (Tickets sample_db) = Some ?t" by code_simp
  have s: "Status ?t = Closed" by code_simp
  have h3: "find_user 1 (Users sample_db) = Some (sample_user 1 ''client'' Client)" by code_simp
  have r: "User_Role (sample_user 1 ''client'' Client) = Client" by code_simp
  have cr: "CreatedByUserId ?t = 1" by code_simp
  have h6: "900 \<notin> set (map Message_Id (TicketMessages sample_db))" by code_simp
  have h2: "Status ?t = Resolved \<or> Status ?t = Closed" using s by simp
  have h4: "User_Role (sample_user 1 ''client'' Client) = Client \<longrightarrow> CreatedByUserId ?t = 1" using cr by simp
  have h5: "User_Role (sample_user 1 ''client'' Client) = Technician \<longrightarrow>
              TechnicianId ?t = Some 1 \<or> AssignedToUserId ?t = Some 1" using r by simp
  have e: "TicketMessages sample_db = []" by code_simp
  obtain dto db' where
    "AddMessageAsync 103 1 ''again'' (Some InProgress) 900 60 61 sample_db = (Inr (Some dto), db')"
    "Dto_Status dto = Some InProgress"
    "TicketMessages db' = TicketMessages sample_db @
              [\<lparr> Message_Id = 900, Message_TicketId = 103, AuthorUserId = 1,
                 Message = ''again'', Message_CreatedAt = 61,
                 Message_Status = Some InProgress \<rparr>]"
    "find_ticket 103 (Tickets db') = Some (?t\<lparr>Status := InProgress, UpdatedAt := Some 60\<rparr>)"
    using reopen_via_message_allowed[OF h1 h2 h3 h4 h5 h6, of "''again''" 60 61] by blast
  then have "\<exists>dto db'.
         AddMessageAsync 103 1 ''again'' (Some InProgress) 900 60 61 sample_db = (Inr (Some dto), db')
       \<and> Dto_Status dto = Some InProgress
       \<and> length (TicketMessages db') = 1
       \<and> map_option Status (find_ticket 103 (Tickets db')) = Some InProgress"
    using e by (intro exI[of _ dto] exI[of _ db']) simp
  with h1 s h3 r cr h6 show ?thesis by (intro conjI)
qed

subsection \<open>C9: the status recorded on a message\<close>

text \<open>
  C9 says that the status stored on the new message is the status the ticket has after the
  call, also when the permission rules ignored the requested status. The service stores
  \<open>status ?? ticket.Status\<close>, the requested status whenever one is given
  (\<open>message_status_is_request\<close>). On the sample store the client (1) posts on the own
  ticket 101, which is \<open>InProgress\<close>, and requests \<open>New\<close>: the request is ignored, the
  ticket stays \<open>InProgress\<close>, and the message and the returned DTO carry \<open>New\<close>.
\<close>

theorem ignored_status_recorded_on_message:
  "find_user 1 (Users sample_db)
     = Some (sample_user 1 ''client'' Client)
   \<and> map_option Status (find_ticket 101 (Tickets sample_db)) = Some InProgress
   \<and> (case fst (AddMessageAsync 101 1 ''hello'' (Some New) 900 60 61 sample_db) of
        Inr (Some dto) \<Rightarrow> Dto_Status dto = Some New
      | _ \<Rightarrow> False)
   \<and> map Message_Status
       (TicketMessages (snd (AddMessageAsync 101 1 ''hello'' (Some New) 900 60 61 sample_db)))
       = [Some New]
   \<and> map_option Status
       (find_ticket 101 (Tickets (snd (AddMessageAsync 101 1 ''hello'' (Some New) 900 60 61 sample_db))))
       = Some InProgress"
  by code_simp

subsection \<open>C10: the due date under an update\<close>

text \<open>
  C10: an Admin's \<open>UpdateTicketAsync\<close> on an existing ticket stores the patch's due date
  as the ticket's due date, so a patch without a due date clears it; an update by any other
  role leaves the due date of every ticket as it was.
\<close>

theorem admin_update_overwrites_due_date:
  "(find_ticket i (Tickets db) = Some ticket \<longrightarrow>
      (\<exists>t'. find_ticket i (Tickets (snd (UpdateTicketAsync i userId Admin request now db))) = Some t'
            \<and> DueDate t' = Update_DueDate request))
   \<and> (role \<noteq> Admin \<longrightarrow>
        map DueDate (Tickets (snd (UpdateTicketAsync i userId role request now db)))
          = map DueDate (Tickets db))"
proof (intro conjI impI)
  assume tk: "find_ticket i (Tickets db) = Some ticket"
  then have i: "Ticket_Id ticket = i" using find_ticket_Some by blast
  show "\<exists>t'. find_ticket i (Tickets (snd (UpdateTicketAsync i userId Admin request now db))) = Some t'
            \<and> DueDate t' = Update_DueDate request"
    using tk i
    by (auto simp: UpdateTicketAsync_def Let_def find_ticket_save_same split: option.splits)
next
  assume r: "role \<noteq> Admin"
  show "map DueDate (Tickets (snd (UpdateTicketAsync i userId role request now db)))
          = map DueDate (Tickets db)"
  proof (cases "find_ticket i (Tickets db)")
    case None
    then show ?thesis by (simp add: UpdateTicketAsync_def)
  next
    case (Some ticket)
    then have i: "Ticket_Id ticket = i" using find_ticket_Some by blast
    show ?thesis
      using Some i r
      by (auto simp: UpdateTicketAsync_def Let_def intro!: map_save_ticket split: option.splits)
  qed
qed

text \<open>
  Ticket 100 has a due date; an Admin patch without one clears it, a Technician patch with
  one changes nothing.
\<close>

theorem admin_update_overwrites_due_date_witness:
  "find_ticket 100 (Tickets sample_db) = Some (sample_ticket 100 New (Some 10) (Some 2) (Some 99))
   \<and> DueDate (sample_ticket 100 New (Some 10) (Some 2) (Some 99)) = Some 99
   \<and> (\<exists>t'. find_ticket 100
              (Tickets (snd (UpdateTicketAsync 100 3 Admin (sample_patch None None) 60 sample_db)))
              = Some t'
          \<and> DueDate t' = None)
   \<and> map DueDate (Tickets (snd (UpdateTicketAsync 100 2 Technician
                                   (sample_patch None (Some 77)) 60 sample_db)))
        = map DueDate (Tickets sample_db)"
proof -
  let ?t = "sample_ticket 100 New (Some 10) (Some 2) (Some 99)"
  have h1: "find_ticket 100 (Tickets sample_db) = Some ?t" by code_simp
  have d: "DueDate ?t = Some 99" by code_simp
  have p: "Update_DueDate (sample_patch None None) = None" by code_simp
  have r: "Technician \<noteq> Admin" by simp
  have a: "\<exists>t'. find_ticket 100
              (Tickets (snd (UpdateTicketAsync 100 3 Admin (sample_patch None None) 60 sample_db)))
              = Some t'
          \<and> DueDate t' = None"
    using admin_update_overwrites_due_date[of 100 sample_db ?t 3 "sample_patch None None" 60] h1 p
    by simp
  have b: "map DueDate (Tickets (snd (UpdateTicketAsync 100 2 Technician
                                   (sample_patch None (Some 77)) 60 sample_db)))
        = map DueDate (Tickets sample_db)"
    using admin_update_overwrites_due_date[of 100 sample_db ?t 2 "sample_patch None (Some 77)" 60 Technician] r
    by blast
  from h1 d a b show ?thesis by (intro conjI)
qed

end
